theory Spec2Isabelle
  imports Complex_Main
begin

section \<open>Planar geometry as the component uses it\<close>

text \<open>
  The module \<^verbatim>\<open>transmon_pocket_6_rounded.py\<close> builds shapely geometries from parsed
  option values. Python floats are modelled as \<^typ>\<open>real\<close>: every statement below is
  about the exact arithmetic of the expressions the source writes, and \<^verbatim>\<open>float(x)\<close> of
  a parsed number is the identity.

  A shapely geometry is its kind and its coordinate sequence. A polygon's sequence is
  its closed exterior ring (first point repeated last).
\<close>

type_synonym point = "real \<times> real"

datatype geom = Polygon "point list" | LineString "point list"

fun coords :: "geom \<Rightarrow> point list" where
  "coords (Polygon ps) = ps"
| "coords (LineString ps) = ps"

fun map_geom :: "(point \<Rightarrow> point) \<Rightarrow> geom \<Rightarrow> geom" where
  "map_geom f (Polygon ps) = Polygon (map f ps)"
| "map_geom f (LineString ps) = LineString (map f ps)"

text \<open>
  \<^verbatim>\<open>shapely.geometry.box(minx, miny, maxx, maxy)\<close>, imported as \<^verbatim>\<open>_box\<close>: the
  counter-clockwise ring starting at the lower right corner.
\<close>

definition box :: "real \<Rightarrow> real \<Rightarrow> real \<Rightarrow> real \<Rightarrow> geom" where
  "box minx miny maxx maxy =
     Polygon [(maxx, miny), (maxx, maxy), (minx, maxy), (minx, miny), (maxx, miny)]"

text \<open>
  The coordinate transforms of \<^verbatim>\<open>qiskit_metal.draw\<close> (wrappers of
  \<^verbatim>\<open>shapely.affinity\<close>): they map every coordinate of a geometry, and a list of
  geometries element by element. Angles are in degrees.
\<close>

definition draw_translate :: "geom \<Rightarrow> real \<Rightarrow> real \<Rightarrow> geom" where
  "draw_translate g xoff yoff = map_geom (\<lambda>(x, y). (x + xoff, y + yoff)) g"

definition draw_scale :: "geom \<Rightarrow> real \<Rightarrow> real \<Rightarrow> geom" where
  \<comment> \<open>\<^verbatim>\<open>draw.scale(g, xfact, yfact, origin=(0, 0))\<close>\<close>
  "draw_scale g xfact yfact = map_geom (\<lambda>(x, y). (xfact * x, yfact * y)) g"

definition draw_rotate :: "geom \<Rightarrow> real \<Rightarrow> geom" where
  \<comment> \<open>\<^verbatim>\<open>draw.rotate(g, angle, origin=(0, 0))\<close>\<close>
  "draw_rotate g angle =
     (let a = angle * pi / 180
      in map_geom (\<lambda>(x, y). (x * cos a - y * sin a, x * sin a + y * cos a)) g)"

definition draw_rotate_position :: "geom \<Rightarrow> real \<Rightarrow> point \<Rightarrow> geom" where
  \<comment> \<open>\<^verbatim>\<open>draw.rotate_position(g, angle, pos)\<close>: rotate about the origin, then move to pos\<close>
  "draw_rotate_position g angle pos = draw_translate (draw_rotate g angle) (fst pos) (snd pos)"

text \<open>
  \<^verbatim>\<open>geometry.buffer(distance, join_style=...)\<close> is the offsetting primitive of the
  geometry library. The module only calls it; it is a parameter \<open>buffer\<close> of every
  function that reaches it. Join styles are shapely's integer codes.
\<close>

type_synonym buffer_op = "geom \<Rightarrow> real \<Rightarrow> int \<Rightarrow> geom"

definition JOIN_STYLE_round :: int where
  \<comment> \<open>\<^verbatim>\<open>join_style=1\<close>\<close>
  "JOIN_STYLE_round = 1"

definition JOIN_STYLE_mitre :: int where
  \<comment> \<open>\<^verbatim>\<open>join_style=2\<close>\<close>
  "JOIN_STYLE_mitre = 2"

section \<open>The rounded-rectangle builder\<close>

definition rounded_rectangle ::
  "buffer_op \<Rightarrow> real \<Rightarrow> real \<Rightarrow> real \<Rightarrow> real \<Rightarrow> real \<Rightarrow> geom" where
  \<comment> \<open>\<^verbatim>\<open>_rounded_rectangle(width, height, xoff, yoff, radius)\<close>\<close>
  "rounded_rectangle buffer width height xoff yoff radius =
     (let w = width; h = height; r = radius in
      if r \<le> 0 then
        (let xmin = xoff; xmax = xmin + w; ymax = yoff; ymin = ymax - h
         in box xmin ymin xmax ymax)
      else
        (let r = min r (0.5 * min w h);
             xmin = xoff; xmax = xmin + w; ymax = yoff; ymin = ymax - h;
             rect = box xmin ymin xmax ymax;
             rounded = buffer (buffer rect (- r) JOIN_STYLE_mitre) r JOIN_STYLE_round
         in rounded))"

section \<open>Options\<close>

text \<open>
  The parsed options \<^verbatim>\<open>self.p\<close>. The fields of a connection pad carry the prefix
  \<open>pc_\<close> (the source's name for that mapping), since \<^verbatim>\<open>pad_gap\<close>, \<^verbatim>\<open>pad_width\<close>
  and \<^verbatim>\<open>pad_height\<close> name an option of the component and an option of each connector.
  \<^verbatim>\<open>orientation\<close>, \<^verbatim>\<open>pos_x\<close> and \<^verbatim>\<open>pos_y\<close> are the placement options every
  component inherits. An override that is \<^verbatim>\<open>None\<close> is \<open>None\<close>.
\<close>

record connection_pad_options =
  pc_pad_gap :: real
  pc_pad_width :: real
  pc_pad_height :: real
  pc_pad_cpw_shift :: real
  pc_pad_cpw_extent :: real
  pc_cpw_width :: real
  pc_cpw_gap :: real
  pc_cpw_extend :: real
  pc_pocket_extent :: real
  pc_pocket_rise :: real
  pc_loc_W :: real
  pc_loc_H :: real

record options =
  pad_gap :: real
  inductor_width :: real
  pad_width :: real
  pad_height :: real
  pocket_width :: real
  pocket_height :: real
  corner_radius :: real
  pad_corner_radius :: "real option"
  pocket_corner_radius :: "real option"
  connector_corner_radius :: "real option"
  connection_pads :: "(string \<times> connection_pad_options) list"
  orientation :: real
  pos_x :: real
  pos_y :: real

definition get_radii :: "options \<Rightarrow> real \<times> real \<times> real" where
  \<comment> \<open>\<^verbatim>\<open>_get_radii\<close>\<close>
  "get_radii p =
     (let base = corner_radius p;
          pad_r = (case pad_corner_radius p of None \<Rightarrow> base | Some v \<Rightarrow> v);
          pk_r = (case pocket_corner_radius p of None \<Rightarrow> base | Some v \<Rightarrow> v);
          cn_r = (case connector_corner_radius p of None \<Rightarrow> base | Some v \<Rightarrow> v)
      in (pad_r, pk_r, cn_r))"

section \<open>The component: geometry table, pins, log\<close>

text \<open>
  What a component accumulates through the host framework: the rows added by
  \<^verbatim>\<open>add_qgeometry\<close> (one per named geometry, with the \<^verbatim>\<open>subtract\<close> flag and the
  \<^verbatim>\<open>width\<close> keyword when given), the pins added by \<^verbatim>\<open>add_pin\<close>, and the records
  sent to \<^verbatim>\<open>self.logger\<close> (format string and arguments). The host calls are modelled as
  recorders: they append and never fail.
\<close>

datatype qkind = Poly | Path | Junction

record qgeometry_row =
  q_kind :: qkind
  q_name :: string
  q_geometry :: geom
  q_subtract :: bool
  q_width :: "real option"

record pin =
  pin_name :: string
  pin_points :: "point list"
  pin_width :: real
  pin_input_as_norm :: bool

datatype log_record = Info string "real list"

record component =
  qgeometry :: "qgeometry_row list"
  pins :: "pin list"
  logger :: "log_record list"

datatype error = KeyError string | ValueError

definition add_qgeometry ::
  "qkind \<Rightarrow> (string \<times> geom) list \<Rightarrow> bool \<Rightarrow> real option \<Rightarrow> component \<Rightarrow> component" where
  "add_qgeometry kind geometry subtract width c =
     c\<lparr>qgeometry := qgeometry c @
          map (\<lambda>(n, g). \<lparr>q_kind = kind, q_name = n, q_geometry = g,
                          q_subtract = subtract, q_width = width\<rparr>) geometry\<rparr>"

definition add_pin :: "string \<Rightarrow> point list \<Rightarrow> real \<Rightarrow> bool \<Rightarrow> component \<Rightarrow> component" where
  "add_pin name points width input_as_norm c =
     c\<lparr>pins := pins c @
          [\<lparr>pin_name = name, pin_points = points, pin_width = width,
            pin_input_as_norm = input_as_norm\<rparr>]\<rparr>"

definition logger_info :: "string \<Rightarrow> real list \<Rightarrow> component \<Rightarrow> component" where
  "logger_info msg args c = c\<lparr>logger := logger c @ [Info msg args]\<rparr>"

section \<open>Pocket and island pads\<close>

definition pocket_polys :: "buffer_op \<Rightarrow> options \<Rightarrow> geom list" where
  \<comment> \<open>\<^verbatim>\<open>make_pocket\<close> up to \<^verbatim>\<open>polys = [rect_jj, pad_top, pad_bot, rect_pk]\<close>\<close>
  "pocket_polys buffer p =
     (case get_radii p of (pad_r, pk_r, _) \<Rightarrow>
      let pad_width' = pad_width p;
          pad_height' = pad_height p;
          pad_gap' = pad_gap p;
          pad = rounded_rectangle buffer pad_width' pad_height'
                  (- pad_width' / 2) (pad_height' / 2) pad_r;
          pad_top = draw_translate pad 0 ((pad_height' + pad_gap') / 2);
          pad_bot = draw_translate pad 0 (- (pad_height' + pad_gap') / 2);
          rect_jj = LineString [(0, - pad_gap' / 2), (0, pad_gap' / 2)];
          rect_pk = rounded_rectangle buffer (pocket_width p) (pocket_height p)
                      (- pocket_width p / 2) (pocket_height p / 2) pk_r
      in [rect_jj, pad_top, pad_bot, rect_pk])"

definition make_pocket :: "buffer_op \<Rightarrow> options \<Rightarrow> component \<Rightarrow> error + component" where
  "make_pocket buffer p c =
     (let polys = pocket_polys buffer p;
          polys = map (\<lambda>g. draw_rotate g (orientation p)) polys;
          polys = map (\<lambda>g. draw_translate g (pos_x p) (pos_y p)) polys
      in case polys of
           [rect_jj, pad_top, pad_bot, rect_pk] \<Rightarrow>
             (let c = add_qgeometry Poly [(''pad_top'', pad_top), (''pad_bot'', pad_bot)]
                        False None c;
                  c = add_qgeometry Poly [(''rect_pk'', rect_pk)] True None c;
                  c = add_qgeometry Junction [(''rect_jj'', rect_jj)] False
                        (Some (inductor_width p)) c
              in Inr c)
         | _ \<Rightarrow> Inl ValueError)"

section \<open>Connection pads\<close>

definition connector_objects :: "buffer_op \<Rightarrow> options \<Rightarrow> connection_pad_options \<Rightarrow> geom list" where
  \<comment> \<open>\<^verbatim>\<open>make_connection_pad\<close>: \<^verbatim>\<open>objects = [connector_pad, connector_wire_path]\<close>
      as built before the scaling\<close>
  "connector_objects buffer p pc =
     (case get_radii p of (_, _, cn_r) \<Rightarrow>
      let cpw_width = pc_cpw_width pc;
          cpw_extend = pc_cpw_extend pc;
          pad_width' = pc_pad_width pc;
          pad_height' = pc_pad_height pc;
          pad_cpw_shift = pc_pad_cpw_shift pc;
          pocket_rise = pc_pocket_rise pc;
          pocket_extent = pc_pocket_extent pc;
          loc_W = pc_loc_W pc
      in if loc_W \<noteq> 0 then
           (let connector_pad = rounded_rectangle buffer pad_width' pad_height'
                                  (- pad_width' / 2) (pad_height' / 2) cn_r;
                connector_wire_path = LineString
                  [(0, pad_cpw_shift + cpw_width / 2),
                   (pc_pad_cpw_extent pc, pad_cpw_shift + cpw_width / 2),
                   ((pocket_width p - pad_width p) / 2 - pocket_extent,
                    pad_cpw_shift + cpw_width / 2 + pocket_rise),
                   ((pocket_width p - pad_width p) / 2 + cpw_extend,
                    pad_cpw_shift + cpw_width / 2 + pocket_rise)]
            in [connector_pad, connector_wire_path])
         else
           (let connector_pad = rounded_rectangle buffer pad_width' pad_height'
                                  0 (pad_height' / 2) cn_r;
                connector_wire_path = LineString
                  [(0, pad_height'),
                   (0, (pocket_width p / 2 - pad_height p - pad_gap p / 2 - pc_pad_gap pc)
                       + cpw_extend)]
            in [connector_pad, connector_wire_path]))"

definition placed_objects :: "buffer_op \<Rightarrow> options \<Rightarrow> connection_pad_options \<Rightarrow> geom list" where
  \<comment> \<open>\<^verbatim>\<open>make_connection_pad\<close>: \<^verbatim>\<open>objects\<close> after scale, translate and rotate_position\<close>
  "placed_objects buffer p pc =
     (let loc_W = pc_loc_W pc; loc_H = pc_loc_H pc;
          objects = connector_objects buffer p pc;
          loc_Woff = (if loc_W = 0 then 1 else loc_W);
          objects = map (\<lambda>g. draw_scale g loc_Woff loc_H) objects;
          objects = map (\<lambda>g. draw_translate g
                                (loc_W * pad_width p / 2)
                                (loc_H * (pad_height p + pad_gap p / 2 + pc_pad_gap pc)))
                      objects;
          objects = map (\<lambda>g. draw_rotate_position g (orientation p) (pos_x p, pos_y p))
                      objects
      in objects)"

definition loc_warning :: string where
  "loc_warning =
     ''Warning: loc_W should be -1, 0, +1 and loc_H should be -1, +1. '' @
     ''You set loc_W=%s loc_H=%s''"

definition make_connection_pad ::
  "buffer_op \<Rightarrow> options \<Rightarrow> string \<Rightarrow> component \<Rightarrow> error + component" where
  "make_connection_pad buffer p name c =
     (case map_of (connection_pads p) name of
        None \<Rightarrow> Inl (KeyError name)
      | Some pc \<Rightarrow>
          (let cpw_width = pc_cpw_width pc;
               loc_W = pc_loc_W pc; loc_H = pc_loc_H pc;
               c = (if loc_W \<notin> set [- 1, 1, 0] \<or> loc_H \<notin> set [- 1, 1]
                    then logger_info loc_warning [loc_W, loc_H] c else c);
               objects = placed_objects buffer p pc
           in case objects of
                [connector_pad, connector_wire_path] \<Rightarrow>
                  (let c = add_qgeometry Poly [(name @ ''_connector_pad'', connector_pad)]
                             False None c;
                       c = add_qgeometry Path [(name @ ''_wire'', connector_wire_path)]
                             False (Some cpw_width) c;
                       c = add_qgeometry Path [(name @ ''_wire_sub'', connector_wire_path)]
                             True (Some (cpw_width + 2 * pc_cpw_gap pc)) c;
                       points = coords connector_wire_path;
                       c = add_pin name (drop (length points - 2) points) cpw_width True c
                   in Inr c)
              | _ \<Rightarrow> Inl ValueError))"

fun make_connection_pads_loop ::
  "buffer_op \<Rightarrow> options \<Rightarrow> string list \<Rightarrow> component \<Rightarrow> error + component" where
  "make_connection_pads_loop buffer p [] c = Inr c"
| "make_connection_pads_loop buffer p (name # names) c =
     (case make_connection_pad buffer p name c of
        Inl e \<Rightarrow> Inl e
      | Inr c' \<Rightarrow> make_connection_pads_loop buffer p names c')"

definition make_connection_pads :: "buffer_op \<Rightarrow> options \<Rightarrow> component \<Rightarrow> error + component" where
  "make_connection_pads buffer p c =
     make_connection_pads_loop buffer p (map fst (connection_pads p)) c"

definition make :: "buffer_op \<Rightarrow> options \<Rightarrow> component \<Rightarrow> error + component" where
  "make buffer p c =
     (case make_pocket buffer p c of
        Inl e \<Rightarrow> Inl e
      | Inr c' \<Rightarrow> make_connection_pads buffer p c')"

text \<open>The declared defaults of the component and of a connection pad, in micrometres.\<close>

definition default_connection_pad :: connection_pad_options where
  "default_connection_pad =
     \<lparr>pc_pad_gap = 15, pc_pad_width = 125, pc_pad_height = 30, pc_pad_cpw_shift = 0,
      pc_pad_cpw_extent = 25, pc_cpw_width = 10, pc_cpw_gap = 6, pc_cpw_extend = 100,
      pc_pocket_extent = 5, pc_pocket_rise = 0, pc_loc_W = 1, pc_loc_H = 1\<rparr>"

definition default_options :: options where
  "default_options =
     \<lparr>pad_gap = 30, inductor_width = 20, pad_width = 455, pad_height = 90,
      pocket_width = 650, pocket_height = 650, corner_radius = 0,
      pad_corner_radius = None, pocket_corner_radius = None,
      connector_corner_radius = None, connection_pads = [],
      orientation = 0, pos_x = 0, pos_y = 0\<rparr>"

section \<open>Shared facts\<close>

lemma rounded_rectangle_rounding_branch:
  "0 < r \<Longrightarrow> rounded_rectangle buffer width height xoff yoff r =
     buffer (buffer (box xoff (yoff - height) (xoff + width) yoff)
                (- min r (0.5 * min width height)) JOIN_STYLE_mitre)
       (min r (0.5 * min width height)) JOIN_STYLE_round"
  by (simp add: rounded_rectangle_def Let_def)

lemma rounded_rectangle_sharp_branch:
  "r \<le> 0 \<Longrightarrow> rounded_rectangle buffer width height xoff yoff r =
     box xoff (yoff - height) (xoff + width) yoff"
  by (simp add: rounded_rectangle_def Let_def)

lemma connector_objects_pair:
  "connector_objects buffer p pc =
     [connector_objects buffer p pc ! 0, connector_objects buffer p pc ! 1]"
  by (simp add: connector_objects_def Let_def split: prod.splits)

lemma connector_pad_offsets:
  "connector_objects buffer p pc ! 0 =
     rounded_rectangle buffer (pc_pad_width pc) (pc_pad_height pc)
       (if pc_loc_W pc \<noteq> 0 then - pc_pad_width pc / 2 else 0) (pc_pad_height pc / 2)
       (snd (snd (get_radii p)))"
  by (simp add: connector_objects_def Let_def split: prod.splits)

lemma placed_objects_pair:
  "placed_objects buffer p pc =
     [placed_objects buffer p pc ! 0, placed_objects buffer p pc ! 1]"
proof -
  obtain a b where ab: "connector_objects buffer p pc = [a, b]"
    using connector_objects_pair by blast
  show ?thesis by (simp add: placed_objects_def Let_def ab)
qed

lemma placed_objects_eq:
  "placed_objects buffer p pc =
     map (\<lambda>g. draw_rotate_position
                (draw_translate
                   (draw_scale g (if pc_loc_W pc = 0 then 1 else pc_loc_W pc) (pc_loc_H pc))
                   (pc_loc_W pc * pad_width p / 2)
                   (pc_loc_H pc * (pad_height p + pad_gap p / 2 + pc_pad_gap pc)))
                (orientation p) (pos_x p, pos_y p))
       (connector_objects buffer p pc)"
  by (simp add: placed_objects_def Let_def)

text \<open>
  A connector that is among the parsed options is built without an error: the result is
  the component with the log record (if any), the three geometry rows and the pin.
\<close>

lemma make_connection_pad_found:
  assumes "map_of (connection_pads p) name = Some pc"
  shows "make_connection_pad buffer p name c =
     Inr (add_pin name
            (drop (length (coords (placed_objects buffer p pc ! 1)) - 2)
               (coords (placed_objects buffer p pc ! 1)))
            (pc_cpw_width pc) True
         (add_qgeometry Path [(name @ ''_wire_sub'', placed_objects buffer p pc ! 1)] True
            (Some (pc_cpw_width pc + 2 * pc_cpw_gap pc))
         (add_qgeometry Path [(name @ ''_wire'', placed_objects buffer p pc ! 1)] False
            (Some (pc_cpw_width pc))
         (add_qgeometry Poly [(name @ ''_connector_pad'', placed_objects buffer p pc ! 0)]
            False None
         (if pc_loc_W pc \<notin> set [- 1, 1, 0] \<or> pc_loc_H pc \<notin> set [- 1, 1]
          then logger_info loc_warning [pc_loc_W pc, pc_loc_H pc] c else c)))))"
proof -
  obtain a b where ab: "placed_objects buffer p pc = [a, b]"
    using placed_objects_pair by blast
  show ?thesis
    unfolding make_connection_pad_def Let_def using assms by (simp add: ab)
qed

lemmas evaluate_shapes =
  connector_objects_def pocket_polys_def get_radii_def rounded_rectangle_def box_def Let_def
  default_options_def default_connection_pad_def draw_rotate_position_def
  draw_translate_def draw_scale_def draw_rotate_def

section \<open>The rounded-rectangle builder at radius zero\<close>

text \<open>
  C1. With radius 0 the builder returns the sharp axis-aligned rectangle with corners
  \<open>(xoff, yoff - height)\<close>, \<open>(xoff + width, yoff - height)\<close>, \<open>(xoff + width, yoff)\<close>
  and \<open>(xoff, yoff)\<close>: the offset is the upper left corner, and the rectangle extends by
  the width to the right and by the height downwards. It is the very box that the
  rounding branch starts from (the un-rounded shape), whatever the buffer primitive is.
  This holds for every width and height, in particular for positive ones.
\<close>

theorem rounded_rectangle_radius_zero:
  "rounded_rectangle buffer width height xoff yoff 0 =
     Polygon [(xoff + width, yoff - height), (xoff + width, yoff), (xoff, yoff),
              (xoff, yoff - height), (xoff + width, yoff - height)]
   \<and> set (coords (rounded_rectangle buffer width height xoff yoff 0)) =
     {(xoff, yoff - height), (xoff + width, yoff - height), (xoff + width, yoff), (xoff, yoff)}
   \<and> rounded_rectangle buffer width height xoff yoff 0 =
     box xoff (yoff - height) (xoff + width) yoff"
  by (auto simp: rounded_rectangle_def box_def Let_def)

theorem rounded_rectangle_radius_zero_witness:
  "\<forall>buffer. rounded_rectangle buffer 125 30 (- 125 / 2) 15 0 =
     Polygon [(125 / 2, - 15), (125 / 2, 15), (- 125 / 2, 15), (- 125 / 2, - 15),
              (125 / 2, - 15)]"
proof
  fix buffer :: buffer_op
  show "rounded_rectangle buffer 125 30 (- 125 / 2) 15 0 =
     Polygon [(125 / 2, - 15), (125 / 2, 15), (- 125 / 2, 15), (- 125 / 2, - 15),
              (125 / 2, - 15)]"
    using rounded_rectangle_radius_zero [of buffer 125 30 "- 125 / 2" 15] by simp
qed


section \<open>Anchoring of the connector pad\<close>

lemma connector_pad_extent_sharp:
  assumes "snd (snd (get_radii p)) \<le> 0"
  shows "fst ` set (coords (connector_objects buffer p pc ! 0)) =
     (if pc_loc_W pc \<noteq> 0 then {- pc_pad_width pc / 2, pc_pad_width pc / 2}
      else {0, pc_pad_width pc})"
  by (auto simp: connector_pad_offsets rounded_rectangle_sharp_branch [OF assms] box_def)

lemma island_pad_centred:
  assumes "fst (get_radii p) \<le> 0"
  shows "pocket_polys buffer p ! 1 =
     draw_translate (box (- pad_width p / 2) (- pad_height p / 2)
                         (pad_width p / 2) (pad_height p / 2))
       0 ((pad_height p + pad_gap p) / 2)"
proof -
  have "rounded_rectangle buffer (pad_width p) (pad_height p)
          (- pad_width p / 2) (pad_height p / 2) (fst (get_radii p)) =
        box (- pad_width p / 2) (- pad_height p / 2) (pad_width p / 2) (pad_height p / 2)"
    by (simp add: rounded_rectangle_sharp_branch [OF assms])
  then show ?thesis
    by (auto simp: pocket_polys_def Let_def split: prod.splits)
qed

text \<open>
  C2. The claim: before any transform the connector pad is symmetric about the local
  y-axis (x from \<open>- pad_width / 2\<close> to \<open>pad_width / 2\<close>) when \<open>loc_W = 0\<close>, and lies to
  one side of the y-axis otherwise. The code does the opposite. The builder takes its
  offset as the upper left corner, and \<^verbatim>\<open>make_connection_pad\<close> passes it the stock
  component's arguments of \<^verbatim>\<open>draw.rectangle\<close>, which the module's documentation
  describes as a centred rectangle that the offsets shift. Evaluated at the default
  connector (pad 125 by 30, radius 0): with \<open>loc_W = 0\<close> the pad spans x from 0 to 125,
  and with \<open>loc_W = 1\<close> it spans x from \<open>- 125 / 2\<close> to \<open>125 / 2\<close>. The island pads of
  \<^verbatim>\<open>make_pocket\<close> do convert the centre to the upper left corner.
\<close>

theorem connector_pad_anchor_evaluated:
  "\<forall>buffer.
     connector_objects buffer default_options (default_connection_pad\<lparr>pc_loc_W := 0\<rparr>) ! 0 =
       Polygon [(125, - 15), (125, 15), (0, 15), (0, - 15), (125, - 15)]
   \<and> connector_objects buffer default_options (default_connection_pad\<lparr>pc_loc_W := 1\<rparr>) ! 0 =
       Polygon [(125 / 2, - 15), (125 / 2, 15), (- 125 / 2, 15), (- 125 / 2, - 15),
                (125 / 2, - 15)]"
  by (simp add: evaluate_shapes)

section \<open>Radius clamping\<close>

text \<open>
  C3. For positive width and height and every radius \<open>r1\<close> above half the shorter side,
  the builder returns the same geometry for \<open>r1\<close> as for exactly half the shorter side.
\<close>

theorem rounded_rectangle_radius_clamped:
  assumes "0 < width" and "0 < height" and "min width height / 2 < r1"
  shows "rounded_rectangle buffer width height xoff yoff r1 =
         rounded_rectangle buffer width height xoff yoff (min width height / 2)"
proof -
  define m where "m = min width height / 2"
  have half: "0.5 * min width height = m" by (simp add: m_def)
  have mpos: "0 < m" using assms(1,2) by (simp add: m_def)
  have r1pos: "0 < r1" using mpos assms(3) unfolding m_def by linarith
  have clamp: "min r1 m = m" using assms(3) by (simp add: m_def)
  have "rounded_rectangle buffer width height xoff yoff r1 =
     buffer (buffer (box xoff (yoff - height) (xoff + width) yoff) (- m) JOIN_STYLE_mitre)
       m JOIN_STYLE_round"
    using rounded_rectangle_rounding_branch [OF r1pos, of buffer width height xoff yoff]
    by (simp only: half clamp)
  moreover have "rounded_rectangle buffer width height xoff yoff m =
     buffer (buffer (box xoff (yoff - height) (xoff + width) yoff) (- m) JOIN_STYLE_mitre)
       m JOIN_STYLE_round"
    using rounded_rectangle_rounding_branch [OF mpos, of buffer width height xoff yoff]
    by (simp only: half min.idem)
  ultimately show ?thesis by (simp only: m_def)
qed

theorem rounded_rectangle_radius_clamped_witness:
  "\<forall>buffer. (0::real) < 4 \<and> (0::real) < 2 \<and> min 4 2 / 2 < (5::real) \<and>
     rounded_rectangle buffer 4 2 0 0 5 = rounded_rectangle buffer 4 2 0 0 (min 4 2 / 2)"
  using rounded_rectangle_radius_clamped [of 4 2 5 _ 0 0] by simp


section \<open>Out-of-range placement flags\<close>

text \<open>
  C4. For a connector of the component whose placement flags are out of range (\<open>loc_W\<close>
  not in \<open>{-1, 0, 1}\<close> or \<open>loc_H\<close> not in \<open>{-1, 1}\<close>), \<^verbatim>\<open>make_connection_pad\<close>
  returns normally (no exception), has appended the warning text with the two flags to
  the log, and has registered the pad, the wire and the subtractive wire built from the
  flags as they are: scaled by \<open>loc_W\<close> (1 only when \<open>loc_W\<close> is 0, which an out-of-range
  \<open>loc_W\<close> never is) and \<open>loc_H\<close>, translated by \<open>loc_W * pad_width / 2\<close> and
  \<open>loc_H * (pad_height + pad_gap / 2 + connector pad_gap)\<close>, then rotated and moved to the
  component's position.
\<close>

theorem make_connection_pad_out_of_range:
  assumes "map_of (connection_pads p) name = Some pc"
    and "pc_loc_W pc \<notin> {- 1, 0, 1} \<or> pc_loc_H pc \<notin> {- 1, 1}"
  shows "\<exists>c'. make_connection_pad buffer p name c = Inr c' \<and>
     logger c' = logger c @ [Info loc_warning [pc_loc_W pc, pc_loc_H pc]] \<and>
     map q_geometry (drop (length (qgeometry c)) (qgeometry c')) =
       (let placed =
          map (\<lambda>g. draw_rotate_position
                (draw_translate
                   (draw_scale g (if pc_loc_W pc = 0 then 1 else pc_loc_W pc) (pc_loc_H pc))
                   (pc_loc_W pc * pad_width p / 2)
                   (pc_loc_H pc * (pad_height p + pad_gap p / 2 + pc_pad_gap pc)))
                (orientation p) (pos_x p, pos_y p))
            (connector_objects buffer p pc)
        in [placed ! 0, placed ! 1, placed ! 1]) \<and>
     (pc_loc_W pc \<notin> {- 1, 0, 1} \<longrightarrow>
        (if pc_loc_W pc = 0 then 1 else pc_loc_W pc) = pc_loc_W pc)"
proof -
  have w: "pc_loc_W pc \<notin> set [- 1, 1, 0] \<or> pc_loc_H pc \<notin> set [- 1, 1]"
    using assms(2) by auto
  show ?thesis
    using w
    by (simp add: make_connection_pad_found [OF assms(1)] add_pin_def add_qgeometry_def
        logger_info_def placed_objects_eq [symmetric] Let_def)
qed

theorem make_connection_pad_out_of_range_witness:
  "\<forall>buffer.
   map_of (connection_pads (default_options\<lparr>connection_pads :=
             [(''a'', default_connection_pad\<lparr>pc_loc_W := 2\<rparr>)]\<rparr>)) ''a''
     = Some (default_connection_pad\<lparr>pc_loc_W := 2\<rparr>)
   \<and> pc_loc_W (default_connection_pad\<lparr>pc_loc_W := 2\<rparr>) \<notin> {- 1, 0, 1}
   \<and> (\<exists>c'. make_connection_pad buffer
             (default_options\<lparr>connection_pads :=
                [(''a'', default_connection_pad\<lparr>pc_loc_W := 2\<rparr>)]\<rparr>) ''a''
             \<lparr>qgeometry = [], pins = [], logger = []\<rparr> = Inr c'
        \<and> logger c' = [Info loc_warning [2, 1]]
        \<and> map q_geometry (qgeometry c') =
            [Polygon [(580, 105), (580, 135), (330, 135), (330, 105), (580, 105)],
             LineString [(455, 125), (505, 125), (640, 125), (850, 125)],
             LineString [(455, 125), (505, 125), (640, 125), (850, 125)]])"
proof
  fix buffer :: buffer_op
  let ?pc = "default_connection_pad\<lparr>pc_loc_W := 2\<rparr>"
  let ?p = "default_options\<lparr>connection_pads := [(''a'', ?pc)]\<rparr>"
  have h1: "map_of (connection_pads ?p) ''a'' = Some ?pc" by simp
  have h2: "pc_loc_W ?pc \<notin> {- 1, 0, 1} \<or> pc_loc_H ?pc \<notin> {- 1, 1}" by simp
  show "map_of (connection_pads ?p) ''a'' = Some ?pc
   \<and> pc_loc_W ?pc \<notin> {- 1, 0, 1}
   \<and> (\<exists>c'. make_connection_pad buffer ?p ''a''
               \<lparr>qgeometry = [], pins = [], logger = []\<rparr> = Inr c'
        \<and> logger c' = [Info loc_warning [2, 1]]
        \<and> map q_geometry (qgeometry c') =
            [Polygon [(580, 105), (580, 135), (330, 135), (330, 105), (580, 105)],
             LineString [(455, 125), (505, 125), (640, 125), (850, 125)],
             LineString [(455, 125), (505, 125), (640, 125), (850, 125)]])"
    using make_connection_pad_out_of_range
      [OF h1 h2, of buffer "\<lparr>qgeometry = [], pins = [], logger = []\<rparr>"]
    by (simp add: evaluate_shapes)
qed

section \<open>Radius resolution\<close>

text \<open>
  C5. \<^verbatim>\<open>_get_radii\<close> returns the three effective radii (pad, pocket, connector): each is
  its own override when that is given and the global \<open>corner_radius\<close> otherwise, and
  setting one override leaves the other two effective radii as they were.
\<close>

theorem get_radii_resolution:
  "get_radii p =
     (case pad_corner_radius p of None \<Rightarrow> corner_radius p | Some v \<Rightarrow> v,
      case pocket_corner_radius p of None \<Rightarrow> corner_radius p | Some v \<Rightarrow> v,
      case connector_corner_radius p of None \<Rightarrow> corner_radius p | Some v \<Rightarrow> v)
   \<and> snd (get_radii (p\<lparr>pad_corner_radius := x\<rparr>)) = snd (get_radii p)
   \<and> fst (get_radii (p\<lparr>pocket_corner_radius := x\<rparr>)) = fst (get_radii p)
   \<and> snd (snd (get_radii (p\<lparr>pocket_corner_radius := x\<rparr>))) = snd (snd (get_radii p))
   \<and> fst (get_radii (p\<lparr>connector_corner_radius := x\<rparr>)) = fst (get_radii p)
   \<and> fst (snd (get_radii (p\<lparr>connector_corner_radius := x\<rparr>))) = fst (snd (get_radii p))"
  by (simp add: get_radii_def Let_def)

theorem get_radii_resolution_witness:
  "get_radii (default_options\<lparr>corner_radius := 20, pocket_corner_radius := Some 5\<rparr>) =
     (20, 5, 20)"
  using get_radii_resolution
    [of "default_options\<lparr>corner_radius := 20, pocket_corner_radius := Some 5\<rparr>"]
  by (simp add: default_options_def)

section \<open>Erosion and dilation\<close>

text \<open>
  C6. For positive width and height and every radius \<open>r > 0\<close>, the builder's result is
  the box built from the offsets, shrunk by the clamped radius \<open>min r (min width height / 2)\<close>
  with the mitre join, then grown by the same clamped radius with the round join, and
  nothing else is done to it.
\<close>

theorem rounded_rectangle_erode_dilate:
  assumes "0 < width" and "0 < height" and "0 < r"
  shows "rounded_rectangle buffer width height xoff yoff r =
     buffer (buffer (box xoff (yoff - height) (xoff + width) yoff)
                (- min r (min width height / 2)) JOIN_STYLE_mitre)
       (min r (min width height / 2)) JOIN_STYLE_round"
  using rounded_rectangle_rounding_branch [OF assms(3), of buffer width height xoff yoff]
  by simp

theorem rounded_rectangle_erode_dilate_witness:
  "\<forall>buffer. (0::real) < 650 \<and> (0::real) < 650 \<and> (0::real) < 20 \<and>
     rounded_rectangle buffer 650 650 (- 325) 325 20 =
       buffer (buffer (Polygon [(325, - 325), (325, 325), (- 325, 325), (- 325, - 325),
                                (325, - 325)]) (- 20) 2) 20 1"
  using rounded_rectangle_erode_dilate [of 650 650 20 _ "- 325" 325]
  by (simp add: box_def JOIN_STYLE_mitre_def JOIN_STYLE_round_def)

section \<open>The island pads\<close>

text \<open>
  C7. In \<^verbatim>\<open>make_pocket\<close>, before the component's rotation and translation, the top and
  the bottom island pad are translates of one and the same rounded pad rectangle: by
  \<open>(0, (pad_height + pad_gap) / 2)\<close> and by \<open>(0, - (pad_height + pad_gap) / 2)\<close>. Their
  coordinates are the pad's, moved up and down by that amount.
\<close>

theorem pocket_polys_island_pads:
  "pocket_polys buffer p ! 1 =
     draw_translate
       (rounded_rectangle buffer (pad_width p) (pad_height p)
          (- pad_width p / 2) (pad_height p / 2) (fst (get_radii p)))
       0 ((pad_height p + pad_gap p) / 2)
   \<and> pocket_polys buffer p ! 2 =
     draw_translate
       (rounded_rectangle buffer (pad_width p) (pad_height p)
          (- pad_width p / 2) (pad_height p / 2) (fst (get_radii p)))
       0 (- (pad_height p + pad_gap p) / 2)
   \<and> coords (pocket_polys buffer p ! 1) =
     map (\<lambda>(x, y). (x, y + (pad_height p + pad_gap p) / 2))
       (coords (rounded_rectangle buffer (pad_width p) (pad_height p)
          (- pad_width p / 2) (pad_height p / 2) (fst (get_radii p))))
   \<and> coords (pocket_polys buffer p ! 2) =
     map (\<lambda>(x, y). (x, y - (pad_height p + pad_gap p) / 2))
       (coords (rounded_rectangle buffer (pad_width p) (pad_height p)
          (- pad_width p / 2) (pad_height p / 2) (fst (get_radii p))))"
proof -
  have up: "coords (draw_translate g 0 d) = map (\<lambda>(x, y). (x, y + d)) (coords g)" for g d
    by (cases g) (simp_all add: draw_translate_def)
  have down: "coords (draw_translate g 0 (- d / 2)) = map (\<lambda>(x, y). (x, y - d / 2)) (coords g)"
    for g d
    by (cases g) (simp_all add: draw_translate_def)
  have top: "pocket_polys buffer p ! 1 =
     draw_translate
       (rounded_rectangle buffer (pad_width p) (pad_height p)
          (- pad_width p / 2) (pad_height p / 2) (fst (get_radii p)))
       0 ((pad_height p + pad_gap p) / 2)"
    by (simp add: pocket_polys_def Let_def split: prod.splits)
  have bot: "pocket_polys buffer p ! 2 =
     draw_translate
       (rounded_rectangle buffer (pad_width p) (pad_height p)
          (- pad_width p / 2) (pad_height p / 2) (fst (get_radii p)))
       0 (- (pad_height p + pad_gap p) / 2)"
    by (simp add: pocket_polys_def Let_def split: prod.splits)
  have c_top: "coords (pocket_polys buffer p ! 1) =
     map (\<lambda>(x, y). (x, y + (pad_height p + pad_gap p) / 2))
       (coords (rounded_rectangle buffer (pad_width p) (pad_height p)
          (- pad_width p / 2) (pad_height p / 2) (fst (get_radii p))))"
    by (simp only: top up)
  have c_bot: "coords (pocket_polys buffer p ! 2) =
     map (\<lambda>(x, y). (x, y - (pad_height p + pad_gap p) / 2))
       (coords (rounded_rectangle buffer (pad_width p) (pad_height p)
          (- pad_width p / 2) (pad_height p / 2) (fst (get_radii p))))"
    by (simp only: bot down)
  from top bot c_top c_bot show ?thesis by (intro conjI)
qed

theorem pocket_polys_island_pads_witness:
  "\<forall>buffer.
     pocket_polys buffer default_options ! 1 =
       Polygon [(455 / 2, 15), (455 / 2, 105), (- 455 / 2, 105), (- 455 / 2, 15),
                (455 / 2, 15)]
   \<and> pocket_polys buffer default_options ! 2 =
       Polygon [(455 / 2, - 105), (455 / 2, - 15), (- 455 / 2, - 15), (- 455 / 2, - 105),
                (455 / 2, - 105)]"
proof
  fix buffer :: buffer_op
  show "pocket_polys buffer default_options ! 1 =
       Polygon [(455 / 2, 15), (455 / 2, 105), (- 455 / 2, 105), (- 455 / 2, 15),
                (455 / 2, 15)]
   \<and> pocket_polys buffer default_options ! 2 =
       Polygon [(455 / 2, - 105), (455 / 2, - 15), (- 455 / 2, - 15), (- 455 / 2, - 105),
                (455 / 2, - 105)]"
    using pocket_polys_island_pads [of buffer default_options]
    by (simp add: get_radii_def rounded_rectangle_def box_def Let_def default_options_def
        draw_translate_def)
qed

section \<open>Registered connector geometry\<close>

text \<open>
  C8. For a connector of the component, \<^verbatim>\<open>make_connection_pad\<close> appends exactly three
  rows to the geometry table, in this order: the connector pad as polygon geometry; the
  wire as path geometry with width \<open>cpw_width\<close>; and the same wire path once more as a
  subtractive path with width \<open>cpw_width + 2 * cpw_gap\<close>. The rows already present stay.
\<close>

theorem make_connection_pad_registers:
  assumes "map_of (connection_pads p) name = Some pc"
  shows "\<exists>c'. make_connection_pad buffer p name c = Inr c' \<and>
     drop (length (qgeometry c)) (qgeometry c') =
       [\<lparr>q_kind = Poly, q_name = name @ ''_connector_pad'',
         q_geometry = placed_objects buffer p pc ! 0, q_subtract = False, q_width = None\<rparr>,
        \<lparr>q_kind = Path, q_name = name @ ''_wire'',
         q_geometry = placed_objects buffer p pc ! 1, q_subtract = False,
         q_width = Some (pc_cpw_width pc)\<rparr>,
        \<lparr>q_kind = Path, q_name = name @ ''_wire_sub'',
         q_geometry = placed_objects buffer p pc ! 1, q_subtract = True,
         q_width = Some (pc_cpw_width pc + 2 * pc_cpw_gap pc)\<rparr>]
     \<and> take (length (qgeometry c)) (qgeometry c') = qgeometry c"
  by (simp add: make_connection_pad_found [OF assms] add_pin_def add_qgeometry_def
        logger_info_def)

theorem make_connection_pad_registers_witness:
  "\<forall>buffer.
   map_of (connection_pads (default_options\<lparr>connection_pads :=
             [(''readout'', default_connection_pad)]\<rparr>)) ''readout''
     = Some default_connection_pad
   \<and> (\<exists>c'. make_connection_pad buffer
             (default_options\<lparr>connection_pads := [(''readout'', default_connection_pad)]\<rparr>)
             ''readout'' \<lparr>qgeometry = [], pins = [], logger = []\<rparr> = Inr c'
        \<and> qgeometry c' =
          [\<lparr>q_kind = Poly, q_name = ''readout_connector_pad'',
            q_geometry = Polygon [(290, 105), (290, 135), (165, 135), (165, 105), (290, 105)],
            q_subtract = False, q_width = None\<rparr>,
           \<lparr>q_kind = Path, q_name = ''readout_wire'',
            q_geometry = LineString [(455 / 2, 125), (505 / 2, 125), (320, 125), (425, 125)],
            q_subtract = False, q_width = Some 10\<rparr>,
           \<lparr>q_kind = Path, q_name = ''readout_wire_sub'',
            q_geometry = LineString [(455 / 2, 125), (505 / 2, 125), (320, 125), (425, 125)],
            q_subtract = True, q_width = Some 22\<rparr>])"
proof
  fix buffer :: buffer_op
  let ?p = "default_options\<lparr>connection_pads := [(''readout'', default_connection_pad)]\<rparr>"
  have h: "map_of (connection_pads ?p) ''readout'' = Some default_connection_pad" by simp
  show "map_of (connection_pads ?p) ''readout'' = Some default_connection_pad
   \<and> (\<exists>c'. make_connection_pad buffer ?p
             ''readout'' \<lparr>qgeometry = [], pins = [], logger = []\<rparr> = Inr c'
        \<and> qgeometry c' =
          [\<lparr>q_kind = Poly, q_name = ''readout_connector_pad'',
            q_geometry = Polygon [(290, 105), (290, 135), (165, 135), (165, 105), (290, 105)],
            q_subtract = False, q_width = None\<rparr>,
           \<lparr>q_kind = Path, q_name = ''readout_wire'',
            q_geometry = LineString [(455 / 2, 125), (505 / 2, 125), (320, 125), (425, 125)],
            q_subtract = False, q_width = Some 10\<rparr>,
           \<lparr>q_kind = Path, q_name = ''readout_wire_sub'',
            q_geometry = LineString [(455 / 2, 125), (505 / 2, 125), (320, 125), (425, 125)],
            q_subtract = True, q_width = Some 22\<rparr>])"
    using make_connection_pad_registers
      [OF h, of buffer "\<lparr>qgeometry = [], pins = [], logger = []\<rparr>"]
    by (simp add: placed_objects_def evaluate_shapes)
qed

section \<open>The wire of a centred connector\<close>

text \<open>
  C10. For a connector with \<open>loc_W = 0\<close>, the wire as built before the mirroring, the
  translation and the rotation is the two-point vertical segment from
  \<open>(0, connector pad_height)\<close> to
  \<open>(0, pocket_width / 2 - pad_height - pad_gap / 2 - connector pad_gap + cpw_extend)\<close>:
  its end is computed from the component's \<open>pocket_width\<close>, not from \<open>pocket_height\<close>.
\<close>

theorem connector_wire_centred:
  assumes "pc_loc_W pc = 0"
  shows "connector_objects buffer p pc ! 1 =
     LineString [(0, pc_pad_height pc),
       (0, pocket_width p / 2 - pad_height p - pad_gap p / 2 - pc_pad_gap pc
           + pc_cpw_extend pc)]"
  using assms by (simp add: connector_objects_def Let_def split: prod.splits)

theorem connector_wire_centred_witness:
  "\<forall>buffer.
     pc_loc_W (default_connection_pad\<lparr>pc_loc_W := 0\<rparr>) = 0
   \<and> connector_objects buffer (default_options\<lparr>pocket_width := 650, pocket_height := 900\<rparr>)
       (default_connection_pad\<lparr>pc_loc_W := 0\<rparr>) ! 1 =
     LineString [(0, 30), (0, 305)]"
proof
  fix buffer :: buffer_op
  have h: "pc_loc_W (default_connection_pad\<lparr>pc_loc_W := 0\<rparr>) = 0" by simp
  show "pc_loc_W (default_connection_pad\<lparr>pc_loc_W := 0\<rparr>) = 0
   \<and> connector_objects buffer (default_options\<lparr>pocket_width := 650, pocket_height := 900\<rparr>)
       (default_connection_pad\<lparr>pc_loc_W := 0\<rparr>) ! 1 =
     LineString [(0, 30), (0, 305)]"
    using connector_wire_centred
      [OF h, of buffer "default_options\<lparr>pocket_width := 650, pocket_height := 900\<rparr>"]
    by (simp add: default_options_def default_connection_pad_def)
qed

end
